theory Spec2Isabelle
  imports Complex_Main "HOL-Library.Multiset"
begin

section \<open>The spaced-repetition engine of uchuuichi (class LearningAlgorithm)\<close>

text \<open>
  The TypeScript class \<open>LearningAlgorithm\<close> has three static functions that the
  study page calls: \<open>calculateNextReview\<close>, \<open>getCardPriority\<close> and
  \<open>generateStudyDeck\<close>. They are embedded below as HOL functions.

  Conventions of the embedding:
  \<^item> a JavaScript \<open>number\<close> that holds a measurement (confidence, quality, an
    interval in days, a priority) is a rational number: arithmetic is exact, there is
    no NaN and no infinity, and IEEE rounding is not modelled;
  \<^item> counters (\<open>reviewCount\<close>, \<open>correctCount\<close>), the difficulty and the requested
    deck size are integers;
  \<^item> a \<open>Date\<close> is its time value, an integer number of milliseconds since the epoch
    (the limit of \<open>8.64e15\<close> ms on time values is not modelled); an optional
    \<open>Date\<close> is an \<open>option\<close>;
  \<^item> every \<open>new Date()\<close> of one call is the same instant, the parameter \<open>now\<close>;
  \<^item> \<open>Math.random()\<close> is a parameter \<open>rnd\<close>: \<open>rnd k\<close> is the value returned by the
    \<open>k\<close>-th call.
\<close>

subsection \<open>Data model (interface FlashCard)\<close>

text \<open>
  The fields \<open>id\<close>, \<open>type\<close> and \<open>chapter\<close> of the interface are named
  \<open>card_id\<close>, \<open>card_type\<close> and \<open>card_chapter\<close> here. The scheduling functions read
  \<open>difficulty\<close>, \<open>reviewCount\<close>, \<open>correctCount\<close>, \<open>confidence\<close> and \<open>nextReview\<close>
  only; the other fields are carried along unchanged.
\<close>

datatype CardType = definition_t | formula_t | separation_t | state_change_t | application_t

datatype Subject = chemistry | physics

record FlashCard =
  card_id :: string
  question :: string
  answer :: string
  card_type :: CardType
  difficulty :: int
  subject :: Subject
  card_chapter :: string
  page :: "int option"
  imageUrl :: "string option"
  lastReviewed :: "int option"
  reviewCount :: int
  correctCount :: int
  confidence :: rat
  nextReview :: "int option"
  tags :: "string list option"

text \<open>The object \<open>{ nextReview, confidence }\<close> returned by \<open>calculateNextReview\<close>.\<close>

record ReviewResult =
  r_nextReview :: int
  r_confidence :: rat

subsection \<open>Dates\<close>

text \<open>
  \<open>new Date(t)\<close> for a number \<open>t\<close> keeps the integral part of \<open>t\<close>, truncated
  towards zero.
\<close>

definition new_Date :: "rat \<Rightarrow> int" where
  "new_Date t = (if t < 0 then \<lceil>t\<rceil> else \<lfloor>t\<rfloor>)"

subsection \<open>calculateNextReview\<close>

text \<open>
  \<open>card.confidence || 50\<close> is 50 when the stored confidence is falsy, which for a
  number means zero. The interval starts at 1 and is overwritten in every branch of
  the threshold chain.
\<close>

definition calculateNextReview :: "int \<Rightarrow> FlashCard \<Rightarrow> rat \<Rightarrow> ReviewResult" where
  "calculateNextReview now c quality =
     (let confidence0 = (if confidence c = 0 then 50 else confidence c);
          confidence1 =
            (if quality \<ge> 3 then min 100 (confidence0 + (quality - 3) * 15)
             else max 0 (confidence0 - (3 - quality) * 20));
          interval0 =
            (if confidence1 \<ge> 90 then 7
             else if confidence1 \<ge> 70 then 3
             else if confidence1 \<ge> 50 then 1
             else if confidence1 \<ge> 30 then 25 / 100
             else 42 / 1000);
          interval1 =
            (if reviewCount c > 0 then
               (let successRate = (of_int (correctCount c) :: rat) / of_int (reviewCount c) in
                if successRate > 8 / 10 then interval0 * (15 / 10)
                else if successRate < 5 / 10 then interval0 * (5 / 10)
                else interval0)
             else interval0)
      in \<lparr> r_nextReview = new_Date (of_int now + interval1 * 24 * 60 * 60 * 1000),
           r_confidence = confidence1 \<rparr>)"

subsection \<open>getCardPriority\<close>

definition getCardPriority :: "int \<Rightarrow> FlashCard \<Rightarrow> rat" where
  "getCardPriority now c =
     (if reviewCount c = 0 then 0
      else
        (let priority0 =
               (case nextReview c of
                  Some t \<Rightarrow>
                    (if t < now then - (of_int (now - t) / (24 * 60 * 60 * 1000))
                     else of_int (t - now) / (24 * 60 * 60 * 1000))
                | None \<Rightarrow> 0);
             priority1 = priority0 - (100 - confidence c) / 50;
             priority2 = priority1 - of_int (difficulty c) * 2
         in priority2))"

subsection \<open>Arrays\<close>

text \<open>
  \<open>Array.prototype.slice\<close>: a negative index counts from the end of the array, and
  every index is clamped to the bounds of the array.
\<close>

definition relativeIndex :: "nat \<Rightarrow> int \<Rightarrow> nat" where
  "relativeIndex len k =
     (if k < 0 then nat (max (int len + k) 0) else nat (min k (int len)))"

definition slice :: "'a list \<Rightarrow> int \<Rightarrow> int \<Rightarrow> 'a list" where
  "slice xs start fin =
     (let from = relativeIndex (length xs) start;
          to = relativeIndex (length xs) fin
      in take (to - from) (drop from xs))"

text \<open>\<open>xs.slice(start)\<close>, with no end index, runs to the end of the array.\<close>

definition slice_from :: "'a list \<Rightarrow> int \<Rightarrow> 'a list" where
  "slice_from xs start = drop (relativeIndex (length xs) start) xs"

subsection \<open>generateStudyDeck\<close>

text \<open>
  The copy of the pool sorted by \<open>(a, b) => getCardPriority(a) - getCardPriority(b)\<close>.
  The sort of JavaScript is stable, and so is \<^const>\<open>sort_key\<close>.
\<close>

definition sortedCards :: "int \<Rightarrow> FlashCard list \<Rightarrow> FlashCard list" where
  "sortedCards now cards = sort_key (getCardPriority now) cards"

text \<open>
  Lines 83 to 114 of the source: the deck as it stands before the shuffle. The
  parameter \<open>focusOnWeak\<close> of the source is never read and is left out.
  \<open>deck.includes(c)\<close> compares object identity; cards are values here, so the model
  compares the records, which is the same thing on a pool whose cards differ pairwise
  (as they do when their identifiers are unique).
\<close>

definition composeDeck :: "int \<Rightarrow> FlashCard list \<Rightarrow> int \<Rightarrow> FlashCard list" where
  "composeDeck now cards deckSize =
     (let sorted = sortedCards now cards;
          newCards = filter (\<lambda>c. reviewCount c = 0) sorted;
          dueCards = filter (\<lambda>c. (case nextReview c of Some t \<Rightarrow> t \<le> now | None \<Rightarrow> False)
                                  \<and> reviewCount c > 0) sorted;
          weakCards = filter (\<lambda>c. confidence c < 50 \<and> reviewCount c > 0) sorted;
          newCardLimit = \<lfloor>rat_of_int deckSize * (3 / 10)\<rfloor>;
          weakCardLimit = \<lfloor>rat_of_int deckSize * (4 / 10)\<rfloor>;
          dueCardLimit = deckSize - newCardLimit - weakCardLimit;
          deck = slice newCards 0 newCardLimit
                 @ slice weakCards 0 weakCardLimit
                 @ slice dueCards 0 dueCardLimit
      in if int (length deck) < deckSize then
           (let remaining = filter (\<lambda>c. c \<notin> set deck) sorted
            in deck @ slice remaining 0 (deckSize - int (length deck)))
         else deck)"

text \<open>
  The Fisher-Yates loop \<open>for (let i = toShuffle.length - 1; i > 0; i--)\<close>. The
  argument \<open>k\<close> counts the calls of \<open>Math.random()\<close> made so far. \<open>Math.random()\<close>
  returns a number in \<open>[0, 1)\<close>, so that \<open>0 \<le> j \<le> i\<close>; the theorems that depend
  on the swaps assume this of \<open>rnd\<close>.
\<close>

fun shuffleLoop :: "(nat \<Rightarrow> rat) \<Rightarrow> nat \<Rightarrow> nat \<Rightarrow> 'a list \<Rightarrow> 'a list" where
  "shuffleLoop rnd k 0 toShuffle = toShuffle"
| "shuffleLoop rnd k (Suc i') toShuffle =
     (let i = Suc i';
          j = nat \<lfloor>rnd k * of_nat (i + 1)\<rfloor>
      in shuffleLoop rnd (Suc k) i' (toShuffle[i := toShuffle ! j, j := toShuffle ! i]))"

definition mathRandom_ok :: "(nat \<Rightarrow> rat) \<Rightarrow> bool" where
  "mathRandom_ok rnd = (\<forall>k. 0 \<le> rnd k \<and> rnd k < 1)"

definition generateStudyDeck ::
  "(nat \<Rightarrow> rat) \<Rightarrow> int \<Rightarrow> FlashCard list \<Rightarrow> int \<Rightarrow> FlashCard list" where
  "generateStudyDeck rnd now cards deckSize =
     (let deck = composeDeck now cards deckSize;
          fixedCount = 3;
          toShuffle = slice_from deck fixedCount;
          shuffled = shuffleLoop rnd 0 (length toShuffle - 1) toShuffle
      in slice deck 0 fixedCount @ shuffled)"

subsection \<open>Example cards\<close>

text \<open>The instant used as the current time in the examples (milliseconds).\<close>

definition now0 :: int where
  "now0 = 1700000000000"

text \<open>The two cards of the test page of the repository: never reviewed, confidence 0.\<close>

definition testCard1 :: FlashCard where
  "testCard1 = \<lparr> card_id = ''test1'', question = ''q1'', answer = ''H2O'',
     card_type = definition_t, difficulty = 1, subject = chemistry,
     card_chapter = ''test'', page = Some 1, imageUrl = None, lastReviewed = None,
     reviewCount = 0, correctCount = 0, confidence = 0, nextReview = None,
     tags = Some [] \<rparr>"

definition testCard2 :: FlashCard where
  "testCard2 = \<lparr> card_id = ''test2'', question = ''q2'', answer = ''300000 km/s'',
     card_type = definition_t, difficulty = 2, subject = physics,
     card_chapter = ''test'', page = Some 1, imageUrl = None, lastReviewed = None,
     reviewCount = 0, correctCount = 0, confidence = 0, nextReview = None,
     tags = Some [] \<rparr>"

text \<open>
  The cards of the example scenario of the specification: A is new, B was due
  yesterday and is weak, C is due next week and is strong.
\<close>

definition cardA :: FlashCard where
  "cardA = testCard1 \<lparr> card_id := ''A'' \<rparr>"

definition cardB :: FlashCard where
  "cardB = testCard1 \<lparr> card_id := ''B'', reviewCount := 5, correctCount := 1,
     confidence := 20, nextReview := Some (now0 - 86400000) \<rparr>"

definition cardC :: FlashCard where
  "cardC = testCard1 \<lparr> card_id := ''C'', reviewCount := 10, correctCount := 9,
     confidence := 95, nextReview := Some (now0 + 7 * 86400000) \<rparr>"

text \<open>
  The card of the example scoring of the specification: confidence 50, four reviews,
  two of them correct. It has no due date; it is neither new, nor weak, nor due.
\<close>

definition cardE :: FlashCard where
  "cardE = testCard2 \<lparr> card_id := ''E'', reviewCount := 4, correctCount := 2,
     confidence := 50 \<rparr>"

text \<open>A pool of five cards with distinct identifiers, none of them both weak and due.\<close>

definition pool5 :: "FlashCard list" where
  "pool5 = [testCard1, testCard2, cardA, cardC, cardE]"

text \<open>A random source for the examples: every call of \<open>Math.random()\<close> returns 0.\<close>

definition rnd_zero :: "nat \<Rightarrow> rat" where
  "rnd_zero k = 0"

subsection \<open>The specification's formulas\<close>

text \<open>
  The confidence update as the specification words it: add \<open>(quality - 3) * 15\<close>
  when \<open>quality \<ge> 3\<close>, subtract \<open>(3 - quality) * 20\<close> otherwise, and clamp the
  result to \<open>[0, 100]\<close>.
\<close>

definition spec_confidence :: "rat \<Rightarrow> rat \<Rightarrow> rat" where
  "spec_confidence conf quality =
     max 0 (min 100 (if quality \<ge> 3 then conf + (quality - 3) * 15
                     else conf - (3 - quality) * 20))"

text \<open>The base interval in days, by the thresholds of the specification.\<close>

definition spec_baseInterval :: "rat \<Rightarrow> rat" where
  "spec_baseInterval conf =
     (if conf \<ge> 90 then 7
      else if conf \<ge> 70 then 3
      else if conf \<ge> 50 then 1
      else if conf \<ge> 30 then 1 / 4
      else 42 / 1000)"

text \<open>
  The historical-success adjustment of the specification: with at least one review,
  a success rate above 0.8 multiplies the interval by 1.5, one below 0.5 by 0.5.
\<close>

definition spec_interval :: "rat \<Rightarrow> int \<Rightarrow> int \<Rightarrow> rat" where
  "spec_interval conf rc cc =
     (if rc > 0 \<and> rat_of_int cc / rat_of_int rc > 8 / 10 then spec_baseInterval conf * (3 / 2)
      else if rc > 0 \<and> rat_of_int cc / rat_of_int rc < 1 / 2 then spec_baseInterval conf * (1 / 2)
      else spec_baseInterval conf)"

subsection \<open>The composition in parts\<close>

text \<open>
  The three filters of lines 92 to 98 of the source, by name.
\<close>

definition isNew :: "FlashCard \<Rightarrow> bool" where
  "isNew c = (reviewCount c = 0)"

definition isDue :: "int \<Rightarrow> FlashCard \<Rightarrow> bool" where
  "isDue now c =
     ((case nextReview c of Some t \<Rightarrow> t \<le> now | None \<Rightarrow> False) \<and> reviewCount c > 0)"

definition isWeak :: "FlashCard \<Rightarrow> bool" where
  "isWeak c = (confidence c < 50 \<and> reviewCount c > 0)"

text \<open>No card of the pool is in both the weak and the due partition.\<close>

definition noWeakAndDue :: "int \<Rightarrow> FlashCard list \<Rightarrow> bool" where
  "noWeakAndDue now cards = list_all (\<lambda>c. \<not> (isWeak c \<and> isDue now c)) cards"

text \<open>
  The four groups of a deck of non-negative size, as the composition is described:
  the first \<open>floor(size * 0.3)\<close> new cards of the sorted pool, its first
  \<open>floor(size * 0.4)\<close> weak cards, its first due cards up to the rest of the size,
  and the backfill, the first cards of the sorted pool not yet placed, up to the size.
\<close>

definition newPart :: "int \<Rightarrow> FlashCard list \<Rightarrow> int \<Rightarrow> FlashCard list" where
  "newPart now cards deckSize =
     take (nat \<lfloor>rat_of_int deckSize * (3 / 10)\<rfloor>) (filter isNew (sortedCards now cards))"

definition weakPart :: "int \<Rightarrow> FlashCard list \<Rightarrow> int \<Rightarrow> FlashCard list" where
  "weakPart now cards deckSize =
     take (nat \<lfloor>rat_of_int deckSize * (4 / 10)\<rfloor>) (filter isWeak (sortedCards now cards))"

definition duePart :: "int \<Rightarrow> FlashCard list \<Rightarrow> int \<Rightarrow> FlashCard list" where
  "duePart now cards deckSize =
     take (nat (deckSize - \<lfloor>rat_of_int deckSize * (3 / 10)\<rfloor>
                 - \<lfloor>rat_of_int deckSize * (4 / 10)\<rfloor>))
       (filter (isDue now) (sortedCards now cards))"

definition backfillPart :: "int \<Rightarrow> FlashCard list \<Rightarrow> int \<Rightarrow> FlashCard list" where
  "backfillPart now cards deckSize =
     (let placed = newPart now cards deckSize @ weakPart now cards deckSize
                   @ duePart now cards deckSize
      in take (nat (deckSize - int (length placed)))
           (filter (\<lambda>c. c \<notin> set placed) (sortedCards now cards)))"

section \<open>Auxiliary facts\<close>

subsection \<open>Dates and intervals\<close>

lemma new_Date_Ints: "r \<in> \<int> \<Longrightarrow> rat_of_int (new_Date (of_int n + r)) = of_int n + r"
  by (auto simp: new_Date_def elim!: Ints_cases simp flip: of_int_add)

lemma new_Date_numeral: "new_Date (of_int n + numeral k) = n + numeral k"
proof -
  have "new_Date (of_int n + of_int (numeral k)) = n + numeral k"
    by (simp add: new_Date_def flip: of_int_add)
  then show ?thesis by simp
qed

lemma spec_interval_ms_Ints: "spec_interval x rc cc * 86400000 \<in> \<int>"
  by (simp add: spec_interval_def spec_baseInterval_def)

text \<open>
  The interval computed by lines 21 to 42 of the source, for any value \<open>x\<close> of the
  updated confidence, is the interval of the specification.
\<close>

lemma interval_code:
  fixes x :: rat and i0 :: rat
  assumes "i0 = (if x \<ge> 90 then 7 else if x \<ge> 70 then 3 else if x \<ge> 50 then 1
             else if x \<ge> 30 then 25 / 100 else 42 / 1000)"
  shows "(if rc > 0 then
            (if rat_of_int cc / rat_of_int rc > 8 / 10 then i0 * (15 / 10)
             else if rat_of_int cc / rat_of_int rc < 5 / 10 then i0 * (5 / 10)
             else i0)
          else i0) * 24 * 60 * 60 * 1000 = spec_interval x rc cc * 86400000"
  unfolding assms by (simp add: spec_baseInterval_def spec_interval_def)

lemma r_nextReview_eq:
  "r_nextReview (calculateNextReview now c q) =
     new_Date (of_int now
       + spec_interval (r_confidence (calculateNextReview now c q))
           (reviewCount c) (correctCount c) * 86400000)"
  unfolding calculateNextReview_def Let_def ReviewResult.select_convs
  by (rule arg_cong[where f=new_Date], rule arg_cong[where f="\<lambda>z. of_int now + z"],
      rule interval_code, rule refl)

lemma spec_interval_boundary:
  assumes "0 < rc" and "5 * cc = 4 * rc \<or> 2 * cc = rc"
  shows "spec_interval x rc cc = spec_baseInterval x"
proof -
  have "\<not> rat_of_int cc / rat_of_int rc > 8 / 10" "\<not> rat_of_int cc / rat_of_int rc < 1 / 2"
    using assms by (auto simp: field_simps)
  then show ?thesis by (simp add: spec_interval_def)
qed

subsection \<open>Slices\<close>

lemma slice_0_nonneg: "0 \<le> n \<Longrightarrow> slice xs 0 n = take (nat n) xs"
  by (simp add: slice_def relativeIndex_def min_def)

lemma slice_0_3: "slice xs 0 3 = take 3 xs"
  using slice_0_nonneg[of 3 xs] by simp

lemma slice_from_3: "slice_from xs 3 = drop 3 xs"
  by (simp add: slice_from_def relativeIndex_def min_def)

lemma set_slice: "set (slice xs a b) \<subseteq> set xs"
  unfolding slice_def Let_def
  by (meson set_take_subset set_drop_subset subset_trans)

lemma slice_Nil: "slice [] a b = []"
  by (simp add: slice_def)

lemma slice_0_0: "slice xs 0 0 = []"
  by (simp add: slice_def relativeIndex_def)

subsection \<open>The shuffle permutes\<close>

lemma length_shuffleLoop: "length (shuffleLoop rnd k i xs) = length xs"
  by (induction i arbitrary: k xs) (simp_all add: Let_def)

lemma random_index:
  assumes "mathRandom_ok rnd"
  shows "nat \<lfloor>rnd k * of_nat (Suc i)\<rfloor> \<le> i"
proof -
  have "0 \<le> rnd k" "rnd k < 1"
    using assms by (simp_all add: mathRandom_ok_def)
  then have "rnd k * of_nat (Suc i) < of_nat (Suc i)"
    by (simp add: mult_less_cancel_right2 del: of_nat_Suc)
  then have "\<lfloor>rnd k * of_nat (Suc i)\<rfloor> < int (Suc i)"
    by (simp add: floor_less_iff del: of_nat_Suc)
  then show ?thesis by linarith
qed

lemma mset_shuffleLoop:
  "mathRandom_ok rnd \<Longrightarrow> i \<le> length xs - 1 \<Longrightarrow> mset (shuffleLoop rnd k i xs) = mset xs"
proof (induction i arbitrary: k xs)
  case 0
  then show ?case by simp
next
  case (Suc i)
  let ?j = "nat \<lfloor>rnd k * of_nat (Suc i + 1)\<rfloor>"
  let ?ys = "xs[Suc i := xs ! ?j, ?j := xs ! Suc i]"
  have i: "Suc i < length xs"
    using Suc.prems(2) by linarith
  have j: "?j \<le> Suc i"
    using random_index[OF Suc.prems(1), of k "Suc i"] by simp
  have "mset ?ys = mset xs"
    using i j by (simp add: mset_swap)
  moreover have "i \<le> length ?ys - 1"
    using i by simp
  ultimately show ?case
    using Suc.IH[OF Suc.prems(1), of ?ys "Suc k"] by (simp add: Let_def)
qed

subsection \<open>The composed deck\<close>

lemma generateStudyDeck_eq:
  "generateStudyDeck rnd now cards n =
     take 3 (composeDeck now cards n)
     @ shuffleLoop rnd 0 (length (drop 3 (composeDeck now cards n)) - 1)
         (drop 3 (composeDeck now cards n))"
  by (simp add: generateStudyDeck_def Let_def slice_0_3 slice_from_3)

lemma set_sortedCards: "set (sortedCards now cards) = set cards"
  by (simp add: sortedCards_def)

lemma set_composeDeck: "set (composeDeck now cards n) \<subseteq> set cards"
proof -
  have "set (slice (filter P (sortedCards now cards)) a b) \<subseteq> set cards" for P a b
    using set_slice[of "filter P (sortedCards now cards)" a b] set_sortedCards[of now cards]
    by auto
  then show ?thesis
    unfolding composeDeck_def Let_def by (simp del: set_filter)
qed

lemma composeDeck_Nil: "composeDeck now [] n = []"
  by (simp add: composeDeck_def sortedCards_def slice_Nil Let_def)

lemma composeDeck_0: "composeDeck now cards 0 = []"
  by (simp add: composeDeck_def slice_0_0 Let_def)

subsection \<open>When no card is both weak and due\<close>

text \<open>
  For a non-negative size the three slot limits are non-negative and add up to the
  size. If moreover the cards of the pool differ pairwise and none of them is both
  weak and due, the three slices are disjoint, the composed deck has no duplicate and
  its length is the smaller of the size and the length of the pool.
\<close>

lemma slot_limits:
  fixes n :: int
  assumes "0 \<le> n"
  shows "0 \<le> \<lfloor>rat_of_int n * (3 / 10)\<rfloor>" "0 \<le> \<lfloor>rat_of_int n * (4 / 10)\<rfloor>"
    "0 \<le> n - \<lfloor>rat_of_int n * (3 / 10)\<rfloor> - \<lfloor>rat_of_int n * (4 / 10)\<rfloor>"
proof -
  have n: "0 \<le> rat_of_int n" using assms by simp
  show "0 \<le> \<lfloor>rat_of_int n * (3 / 10)\<rfloor>" using n by simp
  show "0 \<le> \<lfloor>rat_of_int n * (4 / 10)\<rfloor>" using n by simp
  have "rat_of_int \<lfloor>rat_of_int n * (3 / 10)\<rfloor> \<le> rat_of_int n * (3 / 10)"
    "rat_of_int \<lfloor>rat_of_int n * (4 / 10)\<rfloor> \<le> rat_of_int n * (4 / 10)"
    by (rule of_int_floor_le)+
  then have "rat_of_int (\<lfloor>rat_of_int n * (3 / 10)\<rfloor> + \<lfloor>rat_of_int n * (4 / 10)\<rfloor>) \<le> rat_of_int n"
    using n by simp
  then have "\<lfloor>rat_of_int n * (3 / 10)\<rfloor> + \<lfloor>rat_of_int n * (4 / 10)\<rfloor> \<le> n"
    by (simp only: of_int_le_iff)
  then show "0 \<le> n - \<lfloor>rat_of_int n * (3 / 10)\<rfloor> - \<lfloor>rat_of_int n * (4 / 10)\<rfloor>"
    by linarith
qed

lemma length_filter_not_in:
  assumes "distinct S" "distinct A" "set A \<subseteq> set S"
  shows "length (filter (\<lambda>x. x \<notin> set A) S) = length S - length A"
proof -
  have "length (filter (\<lambda>x. x \<notin> set A) S) = card ({x. x \<notin> set A} \<inter> set S)"
    using assms(1) by (rule distinct_length_filter)
  also have "{x. x \<notin> set A} \<inter> set S = set S - set A" by auto
  also have "card (set S - set A) = card (set S) - card (set A)"
    using assms(3) by (simp add: card_Diff_subset)
  finally show ?thesis
    using assms(1,2) by (simp add: distinct_card)
qed

lemma composeDeck_no_overlap:
  assumes d: "distinct cards" and n: "0 \<le> n"
    and no: "\<And>c t. c \<in> set cards \<Longrightarrow> confidence c < 50 \<Longrightarrow> nextReview c = Some t \<Longrightarrow> t \<le> now \<Longrightarrow> reviewCount c \<le> 0"
  shows "distinct (composeDeck now cards n) \<and>
         int (length (composeDeck now cards n)) = min n (int (length cards))"
proof -
  define S where "S = sortedCards now cards"
  define N where "N = filter (\<lambda>c. reviewCount c = 0) S"
  define D where "D = filter (\<lambda>c. (case nextReview c of Some t \<Rightarrow> t \<le> now | None \<Rightarrow> False)
                                  \<and> reviewCount c > 0) S"
  define W where "W = filter (\<lambda>c. confidence c < 50 \<and> reviewCount c > 0) S"
  define a where "a = nat \<lfloor>rat_of_int n * (3 / 10)\<rfloor>"
  define b where "b = nat \<lfloor>rat_of_int n * (4 / 10)\<rfloor>"
  define c where "c = nat (n - \<lfloor>rat_of_int n * (3 / 10)\<rfloor> - \<lfloor>rat_of_int n * (4 / 10)\<rfloor>)"
  define deck where "deck = take a N @ take b W @ take c D"
  have S: "distinct S" "set S = set cards" "length S = length cards"
    using d by (simp_all add: S_def sortedCards_def)
  have abc: "int (a + b + c) = n"
    using slot_limits[OF n] by (simp add: a_def b_def c_def)
  have deck_eq: "slice N 0 \<lfloor>rat_of_int n * (3 / 10)\<rfloor> @ slice W 0 \<lfloor>rat_of_int n * (4 / 10)\<rfloor>
      @ slice D 0 (n - \<lfloor>rat_of_int n * (3 / 10)\<rfloor> - \<lfloor>rat_of_int n * (4 / 10)\<rfloor>) = deck"
    using slot_limits[OF n] by (simp add: slice_0_nonneg deck_def a_def b_def c_def)
  have NW: "set N \<inter> set W = {}" and ND: "set N \<inter> set D = {}"
    by (auto simp: N_def W_def D_def)
  have WD: "set W \<inter> set D = {}"
    using no S(2) by (fastforce simp: W_def D_def split: option.splits)
  have sub: "set (take a N) \<subseteq> set N" "set (take b W) \<subseteq> set W" "set (take c D) \<subseteq> set D"
    by (rule set_take_subset)+
  have dist0: "distinct deck"
    using S(1) NW ND WD sub unfolding deck_def
    by (auto simp: N_def W_def D_def distinct_take dest!: in_set_takeD)
  have subS: "set deck \<subseteq> set S"
    using sub by (auto simp: deck_def N_def W_def D_def)
  have len0: "length deck \<le> a + b + c"
    by (simp add: deck_def)
  have le_S: "length deck \<le> length S"
    using dist0 subS S(1) by (metis card_mono distinct_card List.finite_set)
  have cd: "composeDeck now cards n =
      (if int (length deck) < n
       then deck @ slice (filter (\<lambda>c. c \<notin> set deck) S) 0 (n - int (length deck))
       else deck)"
    unfolding composeDeck_def Let_def S_def[symmetric] N_def[symmetric] D_def[symmetric]
      W_def[symmetric] deck_eq by (rule refl)
  show ?thesis
  proof (cases "int (length deck) < n")
    case True
    define R where "R = filter (\<lambda>c. c \<notin> set deck) S"
    define k where "k = nat (n - int (length deck))"
    have k: "slice R 0 (n - int (length deck)) = take k R"
      using True by (simp add: slice_0_nonneg k_def)
    have R: "distinct R" "set R \<inter> set deck = {}" "length R = length S - length deck"
      using S(1) dist0 subS by (auto simp: R_def length_filter_not_in)
    have "distinct (deck @ take k R)"
      using dist0 R(1,2) by (auto dest!: in_set_takeD)
    moreover have "int (length (deck @ take k R)) = min n (int (length cards))"
      using True le_S R(3) S(3) unfolding k_def length_append length_take by linarith
    ultimately show ?thesis
      using True by (simp add: cd R_def[symmetric] k)
  next
    case False
    then have "int (length deck) = n" using len0 abc by linarith
    then show ?thesis
      using False dist0 le_S S(3) by (simp add: cd min_def)
  qed
qed


text \<open>The returned deck is a permutation of the composed deck.\<close>

lemma mset_generateStudyDeck:
  assumes "mathRandom_ok rnd"
  shows "mset (generateStudyDeck rnd now cards n) = mset (composeDeck now cards n)"
proof -
  let ?d = "composeDeck now cards n"
  let ?s = "shuffleLoop rnd 0 (length (drop 3 ?d) - 1) (drop 3 ?d)"
  have "mset ?s = mset (drop 3 ?d)"
    by (rule mset_shuffleLoop[OF assms]) simp
  then have "mset (take 3 ?d @ ?s) = mset (take 3 ?d @ drop 3 ?d)"
    by (simp only: mset_append)
  then show ?thesis
    by (simp only: generateStudyDeck_eq append_take_drop_id)
qed

lemma generateStudyDeck_no_overlap:
  assumes r: "mathRandom_ok rnd" and d: "distinct (map card_id cards)" and n: "0 \<le> n"
    and no: "\<And>c t. c \<in> set cards \<Longrightarrow> confidence c < 50 \<Longrightarrow> nextReview c = Some t \<Longrightarrow>
               t \<le> now \<Longrightarrow> reviewCount c \<le> 0"
  shows "distinct (map card_id (generateStudyDeck rnd now cards n))"
    and "int (length (generateStudyDeck rnd now cards n)) = min n (int (length cards))"
proof -
  let ?g = "generateStudyDeck rnd now cards n"
  have dc: "distinct cards" and inj: "inj_on card_id (set cards)"
    using d by (simp_all add: distinct_map)
  have cd: "distinct (composeDeck now cards n)"
    "int (length (composeDeck now cards n)) = min n (int (length cards))"
    using composeDeck_no_overlap[OF dc n no] by simp_all
  have m: "mset ?g = mset (composeDeck now cards n)"
    by (rule mset_generateStudyDeck[OF r])
  have "distinct ?g"
    using cd(1) m by (metis mset_eq_imp_distinct_iff)
  moreover have "set ?g \<subseteq> set cards"
    using mset_eq_setD[OF m] set_composeDeck[of now cards n] by simp
  ultimately show "distinct (map card_id ?g)"
    using inj by (auto simp: distinct_map intro: inj_on_subset)
  show "int (length ?g) = min n (int (length cards))"
    using cd(2) mset_eq_length[OF m] by simp
qed

subsection \<open>The composed deck in parts\<close>

text \<open>
  Each part is a prefix of a filtered copy of the sorted pool, hence in ascending
  priority order; for a non-negative size the composed deck is the four parts in a row.
\<close>

lemma sorted_part:
  "sorted (map (getCardPriority now) (take k (filter P (sortedCards now cards))))"
proof -
  have "sorted (map (getCardPriority now) (sortedCards now cards))"
    by (simp add: sortedCards_def)
  then have "sorted (map (getCardPriority now) (filter P (sortedCards now cards)))"
    by (rule sorted_filter)
  then show ?thesis
    by (simp add: take_map[symmetric] sorted_wrt_take)
qed

lemma composeDeck_parts:
  assumes n: "0 \<le> n"
  shows "composeDeck now cards n =
     newPart now cards n @ weakPart now cards n @ duePart now cards n @ backfillPart now cards n"
proof -
  define placed where
    "placed = newPart now cards n @ weakPart now cards n @ duePart now cards n"
  have preds: "(\<lambda>c. reviewCount c = 0) = isNew"
    "(\<lambda>c. (case nextReview c of Some t \<Rightarrow> t \<le> now | None \<Rightarrow> False) \<and> reviewCount c > 0) = isDue now"
    "(\<lambda>c. confidence c < 50 \<and> reviewCount c > 0) = isWeak"
    by (auto simp: isNew_def isDue_def isWeak_def fun_eq_iff)
  have slices: "slice (filter isNew (sortedCards now cards)) 0 \<lfloor>rat_of_int n * (3 / 10)\<rfloor>
      @ slice (filter isWeak (sortedCards now cards)) 0 \<lfloor>rat_of_int n * (4 / 10)\<rfloor>
      @ slice (filter (isDue now) (sortedCards now cards)) 0
          (n - \<lfloor>rat_of_int n * (3 / 10)\<rfloor> - \<lfloor>rat_of_int n * (4 / 10)\<rfloor>) = placed"
    using slot_limits[OF n]
    by (simp add: slice_0_nonneg placed_def newPart_def weakPart_def duePart_def)
  have cd: "composeDeck now cards n =
      (if int (length placed) < n
       then placed @ slice (filter (\<lambda>c. c \<notin> set placed) (sortedCards now cards)) 0
                       (n - int (length placed))
       else placed)"
    unfolding composeDeck_def Let_def preds slices by (rule refl)
  have bf: "backfillPart now cards n =
      take (nat (n - int (length placed))) (filter (\<lambda>c. c \<notin> set placed) (sortedCards now cards))"
    by (simp add: backfillPart_def Let_def placed_def)
  show ?thesis
  proof (cases "int (length placed) < n")
    case True
    then show ?thesis
      by (simp add: cd bf slice_0_nonneg) (simp add: placed_def)
  next
    case False
    then have "backfillPart now cards n = []"
      by (simp add: bf)
    then show ?thesis
      using False by (simp add: cd) (simp add: placed_def)
  qed
qed

lemma sorted_backfillPart:
  "sorted (map (getCardPriority now) (backfillPart now cards n))"
  unfolding backfillPart_def Let_def by (rule sorted_part)

lemma noWeakAndDue_D:
  assumes "noWeakAndDue now cards" "c \<in> set cards" "confidence c < 50"
    "nextReview c = Some t" "t \<le> now"
  shows "reviewCount c \<le> 0"
proof -
  have "\<not> (isWeak c \<and> isDue now c)"
    using assms(1,2) by (simp add: noWeakAndDue_def list_all_iff)
  then show ?thesis
    using assms(3-5) by (auto simp: isWeak_def isDue_def)
qed

lemmas example_cards =
  testCard1_def testCard2_def cardA_def cardB_def cardC_def cardE_def now0_def

lemma mathRandom_ok_rnd_zero: "mathRandom_ok rnd_zero"
  by (simp add: mathRandom_ok_def rnd_zero_def)

section \<open>The scorer\<close>

text \<open>
  Claim C2. For every card, \<open>getCardPriority\<close> returns 0 when \<open>reviewCount\<close> is 0,
  whatever the other fields hold. Otherwise it returns a base term minus
  \<open>(100 - confidence) / 50\<close> minus \<open>difficulty * 2\<close>, where the base term is 0 when
  \<open>nextReview\<close> is unset, minus the number of days overdue when \<open>nextReview\<close> is in
  the past, and the number of days until \<open>nextReview\<close> when it is not in the past.
\<close>

theorem getCardPriority_formula:
  "(reviewCount c = 0 \<longrightarrow> getCardPriority now c = 0) \<and>
   (reviewCount c \<noteq> 0 \<longrightarrow> nextReview c = None \<longrightarrow>
      getCardPriority now c = 0 - (100 - confidence c) / 50 - of_int (difficulty c) * 2) \<and>
   (reviewCount c \<noteq> 0 \<longrightarrow> nextReview c = Some t \<longrightarrow> t < now \<longrightarrow>
      getCardPriority now c =
        - (of_int (now - t) / 86400000) - (100 - confidence c) / 50 - of_int (difficulty c) * 2) \<and>
   (reviewCount c \<noteq> 0 \<longrightarrow> nextReview c = Some t \<longrightarrow> now \<le> t \<longrightarrow>
      getCardPriority now c =
        of_int (t - now) / 86400000 - (100 - confidence c) / 50 - of_int (difficulty c) * 2)"
  unfolding getCardPriority_def Let_def by simp

theorem getCardPriority_formula_witness:
  "reviewCount testCard1 = 0 \<and> getCardPriority now0 testCard1 = 0 \<and>
   reviewCount cardE \<noteq> 0 \<and> nextReview cardE = None \<and> getCardPriority now0 cardE = - 5 \<and>
   reviewCount cardB \<noteq> 0 \<and> nextReview cardB = Some (now0 - 86400000) \<and>
     now0 - 86400000 < now0 \<and> getCardPriority now0 cardB = - (23 / 5) \<and>
   reviewCount cardC \<noteq> 0 \<and> nextReview cardC = Some (now0 + 604800000) \<and>
     now0 \<le> now0 + 604800000 \<and> getCardPriority now0 cardC = 49 / 10"
  using getCardPriority_formula[where c = testCard1 and now = now0]
    getCardPriority_formula[where c = cardE and now = now0]
    getCardPriority_formula[where c = cardB and now = now0 and t = "now0 - 86400000"]
    getCardPriority_formula[where c = cardC and now = now0 and t = "now0 + 604800000"]
  by (simp add: example_cards)

text \<open>
  Claim C3 fails as it is worded: \<open>card.confidence || 50\<close> starts the update from 50
  when the stored confidence is 0. The first test card has never been reviewed and
  has confidence 0; scored with quality 4 it comes back with confidence 65, where the
  formula of the claim gives 15.
\<close>

theorem calculateNextReview_confidence_counterexample:
  "(0::rat) \<le> 4 \<and> (4::rat) \<le> 5 \<and> confidence testCard1 = 0 \<and>
   r_confidence (calculateNextReview now0 testCard1 4) = 65 \<and>
   spec_confidence (confidence testCard1) 4 = 15"
  by (simp add: calculateNextReview_def spec_confidence_def Let_def example_cards)

text \<open>
  Claim C3, amended. For every card whose stored confidence lies in \<open>[0, 100]\<close> and
  every quality in \<open>[0, 5]\<close>: when the stored confidence is not 0, the confidence
  returned by \<open>calculateNextReview\<close> is the stored confidence plus
  \<open>(quality - 3) * 15\<close> when \<open>quality \<ge> 3\<close>, or minus \<open>(3 - quality) * 20\<close> when
  \<open>quality < 3\<close>, clamped to \<open>[0, 100]\<close>; when the card has never been reviewed
  (\<open>reviewCount = 0\<close>) and its stored confidence is 0, the same update starts from
  the default 50; and the returned confidence lies in \<open>[0, 100]\<close>. The value
  returned for a reviewed card whose stored confidence is 0 is no part of the
  statement.
\<close>

theorem calculateNextReview_confidence:
  assumes "0 \<le> confidence c" and "confidence c \<le> 100" and "0 \<le> q" and "q \<le> 5"
  shows "(confidence c \<noteq> 0 \<longrightarrow>
            r_confidence (calculateNextReview now c q) = spec_confidence (confidence c) q)
         \<and> (confidence c = 0 \<and> reviewCount c = 0 \<longrightarrow>
            r_confidence (calculateNextReview now c q) = spec_confidence 50 q)
         \<and> 0 \<le> r_confidence (calculateNextReview now c q)
         \<and> r_confidence (calculateNextReview now c q) \<le> 100"
  using assms unfolding calculateNextReview_def Let_def spec_confidence_def
  by (auto simp: min_def max_def)

theorem calculateNextReview_confidence_witness:
  "0 \<le> confidence cardB \<and> confidence cardB \<le> 100 \<and> (0::rat) \<le> 1 \<and> (1::rat) \<le> 5 \<and>
   confidence cardB \<noteq> 0 \<and>
   r_confidence (calculateNextReview now0 cardB 1) = 0 \<and>
   spec_confidence (confidence cardB) 1 = 0 \<and>
   0 \<le> confidence testCard1 \<and> confidence testCard1 \<le> 100 \<and> (0::rat) \<le> 4 \<and> (4::rat) \<le> 5 \<and>
   confidence testCard1 = 0 \<and> reviewCount testCard1 = 0 \<and>
   r_confidence (calculateNextReview now0 testCard1 4) = 65 \<and>
   spec_confidence 50 4 = 65"
  using calculateNextReview_confidence[where c = cardB and q = 1 and now = now0]
    calculateNextReview_confidence[where c = testCard1 and q = 4 and now = now0]
  by (simp add: spec_confidence_def example_cards)

text \<open>
  A reviewed card reaches confidence 0 through the clamp of line 18: card E, failed
  twice with quality 1, goes from 50 to 10 and from 10 to 0. At the next review the
  same \<open>||\<close> reads the stored 0 as unset, and a third failure returns 10.
\<close>

lemma calculateNextReview_reviewed_zero:
  "r_confidence (calculateNextReview now0 cardE 1) = 10 \<and>
   r_confidence (calculateNextReview now0 (cardE \<lparr> reviewCount := 5, confidence := 10 \<rparr>) 1) = 0 \<and>
   r_confidence (calculateNextReview now0 (cardE \<lparr> reviewCount := 6, confidence := 0 \<rparr>) 1) = 10"
  by (simp add: calculateNextReview_def Let_def example_cards)

text \<open>
  Claim C4. For every card, \<open>calculateNextReview\<close> returns \<open>nextReview = now +
  interval\<close> days (a day is 86400000 ms), where the base interval is selected from
  the updated confidence by the thresholds \<open>\<ge> 90\<close>: 7, \<open>\<ge> 70\<close>: 3, \<open>\<ge> 50\<close>: 1,
  \<open>\<ge> 30\<close>: 0.25, else 0.042, and, when \<open>reviewCount > 0\<close>, is multiplied by 1.5 if
  \<open>correctCount / reviewCount > 0.8\<close> and by 0.5 if it is \<open>< 0.5\<close>, with the counts
  of the card as it is passed in. When the rate is exactly 0.8 or exactly 0.5 the base
  interval is used unchanged.
\<close>

theorem calculateNextReview_interval:
  "rat_of_int (r_nextReview (calculateNextReview now c q)) =
     of_int now
     + spec_interval (r_confidence (calculateNextReview now c q))
         (reviewCount c) (correctCount c) * 86400000
   \<and> (0 < reviewCount c \<and>
        (5 * correctCount c = 4 * reviewCount c \<or> 2 * correctCount c = reviewCount c) \<longrightarrow>
      rat_of_int (r_nextReview (calculateNextReview now c q)) =
        of_int now + spec_baseInterval (r_confidence (calculateNextReview now c q)) * 86400000)"
proof -
  let ?r = "calculateNextReview now c q"
  have main: "rat_of_int (r_nextReview ?r) =
      of_int now + spec_interval (r_confidence ?r) (reviewCount c) (correctCount c) * 86400000"
    by (simp only: r_nextReview_eq new_Date_Ints[OF spec_interval_ms_Ints])
  moreover have "rat_of_int (r_nextReview ?r) =
      of_int now + spec_baseInterval (r_confidence ?r) * 86400000"
    if "0 < reviewCount c"
      and "5 * correctCount c = 4 * reviewCount c \<or> 2 * correctCount c = reviewCount c"
    using main spec_interval_boundary[OF that] by simp
  ultimately show ?thesis by blast
qed

theorem calculateNextReview_interval_witness:
  "0 < reviewCount cardE \<and> 2 * correctCount cardE = reviewCount cardE \<and>
   r_confidence (calculateNextReview now0 cardE 4) = 65 \<and>
   r_nextReview (calculateNextReview now0 cardE 4) = now0 + 86400000 \<and>
   0 < reviewCount (cardB \<lparr> correctCount := 4 \<rparr>) \<and>
   5 * correctCount (cardB \<lparr> correctCount := 4 \<rparr>) = 4 * reviewCount (cardB \<lparr> correctCount := 4 \<rparr>) \<and>
   r_confidence (calculateNextReview now0 (cardB \<lparr> correctCount := 4 \<rparr>) 5) = 50 \<and>
   r_nextReview (calculateNextReview now0 (cardB \<lparr> correctCount := 4 \<rparr>) 5) = now0 + 86400000"
proof -
  have e: "r_confidence (calculateNextReview now0 cardE 4) = 65"
    by (simp add: calculateNextReview_def Let_def example_cards)
  have b: "r_confidence (calculateNextReview now0 (cardB \<lparr> correctCount := 4 \<rparr>) 5) = 50"
    by (simp add: calculateNextReview_def Let_def example_cards)
  have "rat_of_int (r_nextReview (calculateNextReview now0 cardE 4)) = of_int (now0 + 86400000)"
    using calculateNextReview_interval[where c = cardE and q = 4 and now = now0]
    by (simp add: e spec_baseInterval_def) (simp add: example_cards)
  moreover have "rat_of_int (r_nextReview (calculateNextReview now0 (cardB \<lparr> correctCount := 4 \<rparr>) 5))
      = of_int (now0 + 86400000)"
    using calculateNextReview_interval[where c = "cardB \<lparr> correctCount := 4 \<rparr>" and q = 5 and now = now0]
    by (simp add: b spec_baseInterval_def) (simp add: example_cards)
  ultimately show ?thesis
    using e b by (simp only: of_int_eq_iff) (simp add: example_cards)
qed

text \<open>
  Claim C8. For every card whose stored confidence is 0 and every quality,
  \<open>calculateNextReview\<close> returns the same confidence and the same \<open>nextReview\<close> as
  for the same card with confidence 50: a stored 0 counts as unset and is replaced by
  the default before the update.
\<close>

theorem calculateNextReview_zero_confidence:
  assumes "confidence c = 0"
  shows "calculateNextReview now c q = calculateNextReview now (c \<lparr> confidence := 50 \<rparr>) q"
proof -
  let ?c = "c \<lparr> confidence := 50 \<rparr>"
  have start: "(if confidence c = 0 then 50 else confidence c) = 50"
    using assms by simp
  have start': "(if confidence ?c = 0 then 50 else confidence ?c) = 50"
    by simp
  have counts: "reviewCount ?c = reviewCount c" "correctCount ?c = correctCount c"
    by simp_all
  show ?thesis
    unfolding calculateNextReview_def start start' counts by (rule refl)
qed

theorem calculateNextReview_zero_confidence_witness:
  "confidence testCard2 = 0 \<and>
   calculateNextReview now0 testCard2 1 =
     calculateNextReview now0 (testCard2 \<lparr> confidence := 50 \<rparr>) 1"
  using calculateNextReview_zero_confidence[where c = testCard2 and q = 1 and now = now0]
  by (simp add: example_cards)

text \<open>
  Claim C10. For every card and every quality in \<open>[0, 5]\<close>, the \<open>nextReview\<close>
  returned by \<open>calculateNextReview\<close> is strictly later than the current time: the
  interval is at least half of 0.042 days.
\<close>

theorem calculateNextReview_in_future:
  "0 \<le> q \<Longrightarrow> q \<le> 5 \<Longrightarrow> now < r_nextReview (calculateNextReview now c q)"
  unfolding calculateNextReview_def Let_def
  by (simp add: new_Date_numeral)

theorem calculateNextReview_in_future_witness:
  "(0::rat) \<le> 0 \<and> (0::rat) \<le> 5 \<and> now0 < r_nextReview (calculateNextReview now0 cardB 0)"
  using calculateNextReview_in_future[where c = cardB and q = 0 and now = now0]
  by simp


section \<open>The deck builder\<close>

text \<open>
  Claim C1 asks that no card identifier occurs twice in a generated deck when the
  identifiers of the pool are pairwise distinct. The code breaks it: the weak and the
  due partitions overlap, and the three slices are appended without a membership
  test (only the backfill filters out the cards already placed). On the example pool
  of the specification, with size 3, card B is weak and overdue and is placed twice.
\<close>

theorem generateStudyDeck_places_card_twice:
  "distinct (map card_id [cardA, cardB, cardC]) \<and>
   generateStudyDeck rnd_zero now0 [cardA, cardB, cardC] 3 = [cardB, cardB, cardA] \<and>
   \<not> distinct (map card_id (generateStudyDeck rnd_zero now0 [cardA, cardB, cardC] 3))"
  by code_simp

text \<open>
  Claim C5 asks that the deck generated for a positive size \<open>n\<close> has length
  \<open>min(n, pool.length)\<close>. The code breaks it through the same double placement: from
  a pool that holds card B alone, with size 3, the deck has two entries.
\<close>

theorem generateStudyDeck_longer_than_pool:
  "(0::int) < 3 \<and>
   generateStudyDeck rnd_zero now0 [cardB] 3 = [cardB, cardB] \<and>
   int (length (generateStudyDeck rnd_zero now0 [cardB] 3)) \<noteq> min 3 (int (length [cardB]))"
  by code_simp

text \<open>
  Claim C6 fails for negative sizes: the slot limits are then negative, and
  \<open>slice(0, limit)\<close> with a negative limit keeps all but the last entries of a
  partition. From the two new cards of the test page, with size -1, the deck holds
  the first of them.
\<close>

theorem generateStudyDeck_negative_size_counterexample:
  "(- 1 :: int) \<le> 0 \<and>
   generateStudyDeck rnd_zero now0 [testCard1, testCard2] (- 1) = [testCard1] \<and>
   generateStudyDeck rnd_zero now0 [testCard1, testCard2] (- 1) \<noteq> []"
  by code_simp

text \<open>
  Claim C6, amended. \<open>generateStudyDeck\<close> returns the empty deck whenever the pool is
  empty, for every requested size, and whenever the requested size is 0, for every
  pool; it returns a deck and raises no error in either case.
\<close>

theorem generateStudyDeck_empty:
  "generateStudyDeck rnd now [] n = [] \<and> generateStudyDeck rnd now cards 0 = []"
  by (simp add: generateStudyDeck_eq composeDeck_Nil composeDeck_0)

text \<open>
  Claim C7 fails as it is worded: the deck is composed partition by partition (new
  cards, then weak, then due, then the backfill), not in the order of the sorted
  pool. With the first test card (new, priority 0) and card E (reviewed, priority -5)
  and size 10, the deck starts with the new card, the sorted pool with card E.
\<close>

theorem generateStudyDeck_top3_counterexample:
  "generateStudyDeck rnd_zero now0 [testCard1, cardE] 10 = [testCard1, cardE] \<and>
   sortedCards now0 [testCard1, cardE] = [cardE, testCard1] \<and>
   take (min 3 (length (generateStudyDeck rnd_zero now0 [testCard1, cardE] 10)))
     (generateStudyDeck rnd_zero now0 [testCard1, cardE] 10)
   \<noteq> take (min 3 (length (generateStudyDeck rnd_zero now0 [testCard1, cardE] 10)))
       (take 3 (sortedCards now0 [testCard1, cardE]))"
  by code_simp

text \<open>
  Claim C7, amended. For every pool with pairwise distinct identifiers in which no card
  is both weak and due, every size \<open>\<ge> 0\<close> and every shuffle source, the first
  \<open>min(3, deck.length)\<close> entries of the deck returned by \<open>generateStudyDeck\<close> are
  the first entries of the four parts in a row: the first \<open>floor(size * 0.3)\<close> new
  cards of the priority-sorted pool, then its first \<open>floor(size * 0.4)\<close> weak cards,
  then its first due cards up to the rest of the size, then the backfill from the
  sorted pool. Each part is in ascending \<open>getCardPriority\<close> order, no identifier
  occurs twice in them, and the returned deck is as long as the four parts together.
\<close>

theorem generateStudyDeck_top3:
  assumes ids: "distinct (map card_id cards)" and n: "0 \<le> n"
    and no: "noWeakAndDue now cards"
  shows "take 3 (generateStudyDeck rnd now cards n) =
           take 3 (newPart now cards n @ weakPart now cards n @ duePart now cards n
                   @ backfillPart now cards n)
         \<and> length (generateStudyDeck rnd now cards n) =
           length (newPart now cards n @ weakPart now cards n @ duePart now cards n
                   @ backfillPart now cards n)
         \<and> sorted (map (getCardPriority now) (newPart now cards n))
         \<and> sorted (map (getCardPriority now) (weakPart now cards n))
         \<and> sorted (map (getCardPriority now) (duePart now cards n))
         \<and> sorted (map (getCardPriority now) (backfillPart now cards n))
         \<and> distinct (map card_id (newPart now cards n @ weakPart now cards n
                   @ duePart now cards n @ backfillPart now cards n))"
proof -
  let ?d = "composeDeck now cards n"
  let ?s = "shuffleLoop rnd 0 (length (drop 3 ?d) - 1) (drop 3 ?d)"
  have parts: "newPart now cards n @ weakPart now cards n @ duePart now cards n
      @ backfillPart now cards n = ?d"
    by (rule composeDeck_parts[OF n, symmetric])
  have len: "length ?s = length ?d - 3"
    by (simp add: length_shuffleLoop)
  then have "take (3 - length (take 3 ?d)) ?s = []"
    by (simp add: min_def)
  then have "take 3 (take 3 ?d @ ?s) = take 3 ?d"
    by (simp del: length_take)
  then have top: "take 3 (generateStudyDeck rnd now cards n) = take 3 ?d"
    by (simp only: generateStudyDeck_eq)
  have "length (take 3 ?d @ ?s) = length ?d"
    using len by simp
  then have length: "length (generateStudyDeck rnd now cards n) = length ?d"
    by (simp only: generateStudyDeck_eq)
  have dc: "distinct cards" and inj: "inj_on card_id (set cards)"
    using ids by (simp_all add: distinct_map)
  have "distinct ?d"
    using composeDeck_no_overlap[OF dc n noWeakAndDue_D[OF no]] by simp
  then have dist: "distinct (map card_id ?d)"
    using inj set_composeDeck[of now cards n]
    by (auto simp: distinct_map intro: inj_on_subset)
  have srt: "sorted (map (getCardPriority now) (newPart now cards n))"
    "sorted (map (getCardPriority now) (weakPart now cards n))"
    "sorted (map (getCardPriority now) (duePart now cards n))"
    unfolding newPart_def weakPart_def duePart_def by (rule sorted_part)+
  show ?thesis
    unfolding parts using top length dist srt sorted_backfillPart[of now cards n] by simp
qed

theorem generateStudyDeck_top3_witness:
  "distinct (map card_id pool5) \<and> (0::int) \<le> 5 \<and> noWeakAndDue now0 pool5 \<and>
   take 3 (generateStudyDeck rnd_zero now0 pool5 5) = [testCard1, cardE, testCard2] \<and>
   newPart now0 pool5 5 = [testCard1] \<and> weakPart now0 pool5 5 = [] \<and>
   duePart now0 pool5 5 = [] \<and> backfillPart now0 pool5 5 = [cardE, testCard2, cardA, cardC]"
proof -
  have h: "distinct (map card_id pool5)" "noWeakAndDue now0 pool5"
    by code_simp+
  have p: "newPart now0 pool5 5 = [testCard1]" "weakPart now0 pool5 5 = []"
    "duePart now0 pool5 5 = []" "backfillPart now0 pool5 5 = [cardE, testCard2, cardA, cardC]"
    by code_simp+
  have "take 3 (generateStudyDeck rnd_zero now0 pool5 5) = [testCard1, cardE, testCard2]"
    using generateStudyDeck_top3[OF h(1) _ h(2), of 5 rnd_zero] by (simp add: p)
  then show ?thesis
    using h p by simp
qed

text \<open>
  Claim C9. Every card of the deck returned by \<open>generateStudyDeck\<close> is an element
  of the input pool: the composition takes slices of filtered copies of the sorted
  pool, and the shuffle, drawing each index from a \<open>Math.random()\<close> in \<open>[0, 1)\<close>,
  only swaps entries.
\<close>

theorem generateStudyDeck_subset_pool:
  assumes "mathRandom_ok rnd"
  shows "set (generateStudyDeck rnd now cards n) \<subseteq> set cards"
proof -
  have "set (generateStudyDeck rnd now cards n) = set (composeDeck now cards n)"
    using mset_generateStudyDeck[OF assms] by (rule mset_eq_setD)
  then show ?thesis
    using set_composeDeck[of now cards n] by simp
qed

theorem generateStudyDeck_subset_pool_witness:
  "mathRandom_ok rnd_zero \<and>
   set (generateStudyDeck rnd_zero now0 [testCard1, testCard2, cardA, cardC, cardE] 5)
     \<subseteq> set [testCard1, testCard2, cardA, cardC, cardE]"
  using generateStudyDeck_subset_pool[where rnd = rnd_zero and now = now0
      and cards = "[testCard1, testCard2, cardA, cardC, cardE]" and n = 5]
  by (simp add: mathRandom_ok_rnd_zero)

end
